theory Spec2Isabelle
  imports Main "HOL-Library.AList" "HOL-Library.Sublist"
begin

section \<open>Python values, classes and errors\<close>

text \<open>
  A shallow embedding of \<^verbatim>\<open>keras_nlp/models/task.py\<close>.  Classes are values: the two
  base classes the module names (\<^verbatim>\<open>Task\<close>, \<^verbatim>\<open>Backbone\<close>) and any other class, told
  apart by an identity and carrying its \<^verbatim>\<open>__name__\<close>.
\<close>

datatype cls = Task | Backbone | Class nat string

fun cname :: "cls \<Rightarrow> string" where
  "cname Task = ''Task''"
| "cname Backbone = ''Backbone''"
| "cname (Class i n) = n"

text \<open>
  Python values as far as the module looks into them: \<^verbatim>\<open>None\<close>, booleans, strings,
  tuples, lists, dictionaries with string keys (insertion-ordered association lists), and
  framework objects (layers, models, tokenizers, tensors), which are opaque: an object is
  known by its class and its identity.
\<close>

datatype val =
    VNone
  | VBool bool
  | VStr string
  | VTuple "val list"
  | VList "val list"
  | VDict "(string \<times> val) list"
  | VObj cls nat

type_synonym dict = "(string \<times> val) list"

text \<open>
  Exceptions are values.  \<open>ValueError\<close> and \<open>TypeError\<close> are the ones the module itself
  can raise; \<open>OtherError\<close> stands for whatever a collaborator raises.
\<close>

datatype error = ValueError string | TypeError string | OtherError string

section \<open>The collaborators of the module\<close>

text \<open>
  The module imports \<^verbatim>\<open>check_config_class\<close>, \<^verbatim>\<open>list_presets\<close>, \<^verbatim>\<open>list_subclasses\<close> and
  \<^verbatim>\<open>load_from_preset\<close> from \<^verbatim>\<open>keras_nlp.utils.preset_utils\<close>, reads the class attributes
  \<^verbatim>\<open>backbone_cls\<close> and \<^verbatim>\<open>preprocessor_cls\<close> of task classes and the \<^verbatim>\<open>presets\<close> of
  backbone classes, uses the builtin \<^verbatim>\<open>issubclass\<close>, formats a value inside an f-string and
  calls the constructors of task and preprocessor classes.  None of these is defined in the
  module, so they are parameters: a \<open>world\<close> fixes them all.  A collaborator that can raise
  returns a sum, \<open>Inl\<close> being the exception.
\<close>

record world =
  issubclass :: "cls \<Rightarrow> cls \<Rightarrow> bool"
  backbone_cls :: "cls \<Rightarrow> cls option"
  preprocessor_cls :: "cls \<Rightarrow> cls option"
  check_config_class :: "string \<Rightarrow> error + cls"
  list_subclasses :: "cls \<Rightarrow> cls list"
  list_presets :: "cls \<Rightarrow> dict"
  backbone_presets :: "cls \<Rightarrow> dict"
  load_from_preset :: "string \<Rightarrow> bool \<Rightarrow> string \<Rightarrow> dict \<Rightarrow> error + val"
  init :: "cls \<Rightarrow> dict \<Rightarrow> error + nat"
  str_of :: "val \<Rightarrow> string"

text \<open>
  Reading a preset and constructing an object are effects.  A run of \<^verbatim>\<open>from_preset\<close>
  returns its outcome together with the list of such calls it made, in order.
\<close>

datatype call =
    CheckConfigClass string
  | LoadFromPreset string bool string dict
  | Construct cls dict

type_synonym 'a run = "(error + 'a) \<times> call list"

definition ret :: "'a \<Rightarrow> 'a run" where
  "ret x = (Inr x, [])"

definition raise :: "error \<Rightarrow> 'a run" where
  "raise e = (Inl e, [])"

definition invoke :: "call \<Rightarrow> error + 'a \<Rightarrow> 'a run" where
  "invoke c outcome = (outcome, [c])"

definition and_then :: "'a run \<Rightarrow> ('a \<Rightarrow> 'b run) \<Rightarrow> 'b run" where
  "and_then m f =
     (case m of
        (Inl e, calls) \<Rightarrow> (Inl e, calls)
      | (Inr x, calls) \<Rightarrow> (case f x of (r, calls') \<Rightarrow> (r, calls @ calls')))"

text \<open>
  Calling a class \<open>c\<close> with keyword arguments \<open>kw\<close>: Python makes an object of class \<open>c\<close>
  and runs the class's \<^verbatim>\<open>__init__\<close>, which may raise.  The world's \<open>init\<close> says whether it does and which object comes out.
\<close>

definition construct :: "world \<Rightarrow> cls \<Rightarrow> dict \<Rightarrow> val run" where
  "construct W c kw =
     invoke (Construct c kw)
       (case init W c kw of Inl e \<Rightarrow> Inl e | Inr i \<Rightarrow> Inr (VObj c i))"

section \<open>\<^verbatim>\<open>Task.from_preset\<close>\<close>

fun join :: "string \<Rightarrow> string list \<Rightarrow> string" where
  "join sep [] = []"
| "join sep [x] = x"
| "join sep (x # y # ys) = x @ sep @ join sep (y # ys)"

definition msg_direct_call :: string where
  "msg_direct_call =
     ''Do not call `Task.from_preset()` directly. Instead call a '' @
     ''particular task class, e.g. '' @
     ''`keras_nlp.models.Classifier.from_preset()` or '' @
     ''`keras_nlp.models.BertClassifier.from_preset()`.''"

definition msg_backbone_arg :: "world \<Rightarrow> cls \<Rightarrow> val \<Rightarrow> string" where
  "msg_backbone_arg W c b =
     ''You cannot pass a `backbone` argument to the `from_preset` '' @
     ''method. Instead, call the '' @ cname c @ '' default '' @
     ''constructor with a `backbone` argument. '' @
     ''Received: backbone='' @ str_of W b @ ''.''"

definition msg_no_subclass :: "cls \<Rightarrow> cls \<Rightarrow> string" where
  "msg_no_subclass c preset_cls =
     ''No registered subclass of `'' @ cname c @ ''` can load '' @
     ''a `'' @ cname preset_cls @ ''`.''"

definition msg_ambiguous :: "cls \<Rightarrow> cls list \<Rightarrow> string" where
  "msg_ambiguous c subclasses =
     ''Ambiguous call to `'' @ cname c @ ''.from_preset()`. '' @
     ''Found multiple possible subclasses '' @
     join '', '' (map (\<lambda>x. ''`'' @ cname x @ ''`'') subclasses) @ ''. '' @
     ''Please call `from_preset` on a subclass directly.''"

definition msg_not_subclass :: "cls \<Rightarrow> cls \<Rightarrow> string" where
  "msg_not_subclass c preset_cls =
     ''Preset has type `'' @ cname preset_cls @ ''` which is not a '' @
     ''a subclass of calling class `'' @ cname c @ ''`. Call '' @
     ''`from_preset` directly on `'' @ cname preset_cls @ ''` instead.''"

definition msg_not_callable :: string where
  "msg_not_callable = [CHR 0x27] @ ''NoneType'' @ [CHR 0x27] @ '' object is not callable''"

text \<open>
  Lines 274 to 291: the class that will be constructed.  When the preset's backbone class
  is not the calling class's \<^verbatim>\<open>backbone_cls\<close>, the registered subclasses are filtered by
  their \<^verbatim>\<open>backbone_cls\<close> and exactly one must remain.
\<close>

definition resolve_cls :: "world \<Rightarrow> cls \<Rightarrow> cls \<Rightarrow> cls run" where
  "resolve_cls W c preset_cls =
     (if Some preset_cls \<noteq> backbone_cls W c then
        (let subclasses = list_subclasses W c;
             subclasses = filter (\<lambda>x. backbone_cls W x = Some preset_cls) subclasses
         in if length subclasses = 0 then raise (ValueError (msg_no_subclass c preset_cls))
            else if length subclasses > 1 then
              raise (ValueError (msg_ambiguous c subclasses))
            else ret (subclasses ! 0))
      else ret c)"

text \<open>
  Lines 292 to 309: load the backbone, take or build the preprocessor, construct the task.
  The tokenizer is loaded with the defaults of \<^verbatim>\<open>load_from_preset\<close> for the arguments the
  call leaves out.  A class whose \<^verbatim>\<open>preprocessor_cls\<close> is still \<^verbatim>\<open>None\<close> cannot be called.
\<close>

definition load_backbone_case :: "world \<Rightarrow> cls \<Rightarrow> string \<Rightarrow> bool \<Rightarrow> dict \<Rightarrow> val run" where
  "load_backbone_case W c preset load_weights kwargs =
     (let config_overrides =
            (case map_of kwargs ''dtype'' of None \<Rightarrow> [] | Some d \<Rightarrow> [(''dtype'', d)]);
          kwargs = AList.delete ''dtype'' kwargs
      in and_then
           (invoke (LoadFromPreset preset load_weights ''config.json'' config_overrides)
              (load_from_preset W preset load_weights ''config.json'' config_overrides))
           (\<lambda>backbone.
              and_then
                (case map_of kwargs ''preprocessor'' of
                   Some p \<Rightarrow> ret p
                 | None \<Rightarrow>
                     and_then
                       (invoke (LoadFromPreset preset True ''tokenizer.json'' [])
                          (load_from_preset W preset True ''tokenizer.json'' []))
                       (\<lambda>tokenizer.
                          case preprocessor_cls W c of
                            None \<Rightarrow> raise (TypeError msg_not_callable)
                          | Some pc \<Rightarrow> construct W pc [(''tokenizer'', tokenizer)]))
                (\<lambda>preprocessor.
                   construct W c
                     ((''backbone'', backbone) # (''preprocessor'', preprocessor) #
                      AList.delete ''preprocessor'' kwargs))))"

definition from_preset :: "world \<Rightarrow> cls \<Rightarrow> string \<Rightarrow> bool \<Rightarrow> dict \<Rightarrow> val run" where
  "from_preset W c preset load_weights kwargs =
     (if c = Task then raise (ValueError msg_direct_call)
      else case map_of kwargs ''backbone'' of
        Some b \<Rightarrow> raise (ValueError (msg_backbone_arg W c b))
      | None \<Rightarrow>
          and_then (invoke (CheckConfigClass preset) (check_config_class W preset))
            (\<lambda>preset_cls.
               if issubclass W preset_cls Backbone then
                 and_then (resolve_cls W c preset_cls)
                   (\<lambda>c'. load_backbone_case W c' preset load_weights kwargs)
               else if \<not> issubclass W preset_cls c then
                 raise (ValueError (msg_not_subclass c preset_cls))
               else
                 invoke (LoadFromPreset preset load_weights ''config.json'' kwargs)
                   (load_from_preset W preset load_weights ''config.json'' kwargs)))"

section \<open>The \<^verbatim>\<open>presets\<close> class property\<close>

text \<open>
  \<^verbatim>\<open>presets.update(other)\<close>: each item of \<open>other\<close>, in order, replaces the value of a key
  that is there (in place) or is appended.
\<close>

definition dict_update :: "dict \<Rightarrow> dict \<Rightarrow> dict" where
  "dict_update d other = fold (\<lambda>(k, v). AList.update k v) other d"

text \<open>
  Lines 197 to 206.  The property calls itself on every registered subclass.  Nothing in the
  module bounds that recursion, so the model counts it down: \<open>None\<close> is a recursion that has
  not come back within \<open>fuel\<close> nested calls.  \<^verbatim>\<open>cls.backbone_cls.presets\<close> is the
  \<^verbatim>\<open>presets\<close> of a backbone class, which the world gives.
\<close>

fun presets :: "nat \<Rightarrow> world \<Rightarrow> cls \<Rightarrow> dict option" where
  "presets 0 W c = None"
| "presets (Suc fuel) W c =
     (let presets0 = list_presets W c;
          presets1 = (case backbone_cls W c of
                        None \<Rightarrow> presets0
                      | Some b \<Rightarrow> dict_update presets0 (backbone_presets W b))
      in fold (\<lambda>subclass acc.
                 case acc of
                   None \<Rightarrow> None
                 | Some d \<Rightarrow>
                     (case presets fuel W subclass of
                        None \<Rightarrow> None
                      | Some ds \<Rightarrow> Some (dict_update d ds)))
           (list_subclasses W c) (Some presets1))"

text \<open>The body of the loop over the subclasses, named for the proofs.\<close>

definition merge_subclass :: "nat \<Rightarrow> world \<Rightarrow> cls \<Rightarrow> dict option \<Rightarrow> dict option" where
  "merge_subclass fuel W subclass acc =
     (case acc of
        None \<Rightarrow> None
      | Some d \<Rightarrow>
          (case presets fuel W subclass of
             None \<Rightarrow> None
           | Some ds \<Rightarrow> Some (dict_update d ds)))"

section \<open>Task instances and the framework\<close>

text \<open>
  A task instance: its class, its layer name and its instance dictionary (\<^verbatim>\<open>_backbone\<close>,
  \<^verbatim>\<open>_preprocessor\<close>, \<^verbatim>\<open>_initialized\<close>, \<^verbatim>\<open>activation\<close> and whatever else was assigned).
\<close>

record task =
  task_cls :: cls
  name :: string
  attrs :: dict

text \<open>What \<^verbatim>\<open>keras.losses.get\<close> and \<^verbatim>\<open>keras.activations.get\<close> resolve an identifier to.\<close>

datatype loss =
    SparseCategoricalCrossentropy bool
  | sparse_categorical_crossentropy
  | OtherLoss nat

datatype activation = Softmax | Linear | OtherActivation nat

text \<open>A sample is the triple \<^verbatim>\<open>(x, y, sample_weight)\<close>.\<close>

type_synonym sample = "val \<times> val \<times> val"

text \<open>
  The framework under the module (Keras and the backend configuration).  \<open>super_setattr\<close>,
  \<open>super_compile\<close> and \<open>super_layers\<close> are the methods of the base class that the module
  reaches through \<^verbatim>\<open>super()\<close>; \<open>call_layer\<close> calls a layer on a sample.
\<close>

record keras =
  backend :: string
  keras_3 :: bool
  super_setattr :: "task \<Rightarrow> string \<Rightarrow> val \<Rightarrow> task"
  losses_get :: "val \<Rightarrow> error + loss"
  activations_get :: "val \<Rightarrow> error + activation"
  super_compile :: "task \<Rightarrow> val \<Rightarrow> val \<Rightarrow> dict \<Rightarrow> error + task"
  layers_serialize :: "val \<Rightarrow> val"
  layers_deserialize :: "dict \<Rightarrow> error + val"
  super_layers :: "task \<Rightarrow> val list"
  call_layer :: "val \<Rightarrow> val \<Rightarrow> val \<Rightarrow> val \<Rightarrow> error + sample"

subsection \<open>Attributes and the two properties\<close>

definition hasattr :: "task \<Rightarrow> string \<Rightarrow> bool" where
  "hasattr self n = (map_of (attrs self) n \<noteq> None)"

definition getattr_default :: "task \<Rightarrow> string \<Rightarrow> val \<Rightarrow> val" where
  "getattr_default self n d = (case map_of (attrs self) n of None \<Rightarrow> d | Some v \<Rightarrow> v)"

text \<open>\<^verbatim>\<open>object.__setattr__\<close> on a name that is no descriptor of the class: store it.\<close>

definition object_setattr :: "task \<Rightarrow> string \<Rightarrow> val \<Rightarrow> task" where
  "object_setattr self n v = self\<lparr>attrs := AList.update n v (attrs self)\<rparr>"

text \<open>
  The names that are properties of \<^verbatim>\<open>Task\<close> in this module.  The private names the setters
  assign are not among them.
\<close>

definition is_property_name :: "string \<Rightarrow> bool" where
  "is_property_name n = (n \<in> {''backbone'', ''preprocessor'', ''layers''})"

text \<open>Lines 142 to 154, \<^verbatim>\<open>Task.__setattr__\<close>.\<close>

definition setattr_Task :: "keras \<Rightarrow> task \<Rightarrow> string \<Rightarrow> val \<Rightarrow> task" where
  "setattr_Task K self n v =
     (let is_property = is_property_name n;
          is_unitialized = \<not> hasattr self ''_initialized'';
          is_torch = (backend K = ''torch'');
          is_keras_2 = \<not> keras_3 K
      in if is_torch \<and> (is_property \<or> is_unitialized) then object_setattr self n v
         else if is_keras_2 \<and> is_unitialized then object_setattr self n v
         else super_setattr K self n v)"

text \<open>Lines 156 to 172: the getters read with a default, the setters assign.\<close>

definition backbone :: "task \<Rightarrow> val" where
  "backbone self = getattr_default self ''_backbone'' VNone"

definition backbone_setter :: "keras \<Rightarrow> task \<Rightarrow> val \<Rightarrow> task" where
  "backbone_setter K self v = setattr_Task K self ''_backbone'' v"

definition preprocessor :: "task \<Rightarrow> val" where
  "preprocessor self = getattr_default self ''_preprocessor'' VNone"

definition preprocessor_setter :: "keras \<Rightarrow> task \<Rightarrow> val \<Rightarrow> task" where
  "preprocessor_setter K self v = setattr_Task K self ''_preprocessor'' v"

subsection \<open>\<^verbatim>\<open>_check_for_loss_mismatch\<close> and \<^verbatim>\<open>compile\<close>\<close>

definition msg_expects_logits :: string where
  "msg_expects_logits =
     ''The `loss` passed to `compile()` expects logit output, but '' @
     ''the model is configured to output softmax probabilities '' @
     ''(`activation='' @ [CHR 0x27] @ ''softmax'' @ [CHR 0x27] @ ''`). This will not converge! Pass '' @
     ''`from_logits=False` to your loss, e.g. '' @
     ''`loss=keras.losses.SparseCategoricalCrossentropy(from_logits=False)`. ''"

definition msg_expects_softmax :: string where
  "msg_expects_softmax =
     ''The `loss` passed to `compile()` expects softmax probability '' @
     ''output, but the model is configured to output logits '' @
     ''(`activation=None`). This will not converge! Pass '' @
     ''`from_logits=True` to your loss, e.g. '' @
     ''`loss=keras.losses.SparseCategoricalCrossentropy(from_logits=True)`. ''"

text \<open>\<^verbatim>\<open>isinstance(loss, (dict, list, tuple))\<close>\<close>

fun is_dict_list_tuple :: "val \<Rightarrow> bool" where
  "is_dict_list_tuple (VDict d) = True"
| "is_dict_list_tuple (VList xs) = True"
| "is_dict_list_tuple (VTuple xs) = True"
| "is_dict_list_tuple v = False"

text \<open>
  Lines 102 to 108: the \<^verbatim>\<open>from_logits\<close> the check goes on with, \<open>None\<close> where the method
  returns because the loss is no sparse categorical crossentropy.
\<close>

fun from_logits_of :: "loss \<Rightarrow> bool option" where
  "from_logits_of (SparseCategoricalCrossentropy from_logits) = Some from_logits"
| "from_logits_of sparse_categorical_crossentropy = Some False"
| "from_logits_of (OtherLoss i) = None"

definition check_for_loss_mismatch :: "keras \<Rightarrow> task \<Rightarrow> val \<Rightarrow> error + unit" where
  "check_for_loss_mismatch K self loss =
     (if is_dict_list_tuple loss then Inr ()
      else if \<not> hasattr self ''activation'' then Inr ()
      else case losses_get K loss of
        Inl e \<Rightarrow> Inl e
      | Inr loss \<Rightarrow>
          (case activations_get K (getattr_default self ''activation'' VNone) of
             Inl e \<Rightarrow> Inl e
           | Inr activation \<Rightarrow>
               (case from_logits_of loss of
                  None \<Rightarrow> Inr ()
                | Some from_logits \<Rightarrow>
                    (let softmax_output = (activation = Softmax);
                         logit_output = (activation = Linear)
                     in if softmax_output \<and> from_logits then
                          Inl (ValueError msg_expects_logits)
                        else if logit_output \<and> \<not> from_logits then
                          Inl (ValueError msg_expects_softmax)
                        else Inr ()))))"

definition compile :: "keras \<Rightarrow> task \<Rightarrow> val \<Rightarrow> val \<Rightarrow> dict \<Rightarrow> error + task" where
  "compile K self optimizer loss kwargs =
     (let kwargs = (if backend K = ''torch''
                    then AList.update ''jit_compile'' (VBool False) kwargs
                    else kwargs)
      in case check_for_loss_mismatch K self loss of
           Inl e \<Rightarrow> Inl e
         | Inr u \<Rightarrow> super_compile K self optimizer loss kwargs)"

subsection \<open>\<^verbatim>\<open>preprocess_samples\<close>\<close>

text \<open>
  Modelled from the spec: \<^verbatim>\<open>PipelineModel.preprocess_samples\<close>, the method of the base class
  in \<^verbatim>\<open>keras_nlp/utils/pipeline_model.py\<close> that \<^verbatim>\<open>Task.preprocess_samples\<close> falls back to
  and that is not among the sources.  The spec: the preprocessor "may be unset, in which case
  inputs pass through unmodified".
\<close>

definition super_preprocess_samples :: "val \<Rightarrow> val \<Rightarrow> val \<Rightarrow> sample" where
  "super_preprocess_samples x y sample_weight = (x, y, sample_weight)"

definition preprocess_samples :: "keras \<Rightarrow> task \<Rightarrow> val \<Rightarrow> val \<Rightarrow> val \<Rightarrow> error + sample" where
  "preprocess_samples K self x y sample_weight =
     (if preprocessor self \<noteq> VNone then
        call_layer K (preprocessor self) x y sample_weight
      else Inr (super_preprocess_samples x y sample_weight))"

subsection \<open>\<^verbatim>\<open>get_config\<close> and \<^verbatim>\<open>from_config\<close>\<close>

definition get_config :: "keras \<Rightarrow> task \<Rightarrow> dict" where
  "get_config K self =
     [(''backbone'', layers_serialize K (backbone self)),
      (''preprocessor'', layers_serialize K (preprocessor self)),
      (''name'', VStr (name self))]"

text \<open>
  \<^verbatim>\<open>if key in config and isinstance(config[key], dict): config[key] = deserialize(config[key])\<close>
\<close>

definition deserialize_entry :: "keras \<Rightarrow> string \<Rightarrow> dict \<Rightarrow> error + dict" where
  "deserialize_entry K key config =
     (case map_of config key of
        Some (VDict d) \<Rightarrow>
          (case layers_deserialize K d of
             Inl e \<Rightarrow> Inl e
           | Inr v \<Rightarrow> Inr (AList.update key v config))
      | _ \<Rightarrow> Inr config)"

definition from_config :: "world \<Rightarrow> keras \<Rightarrow> cls \<Rightarrow> dict \<Rightarrow> val run" where
  "from_config W K c config =
     (case deserialize_entry K ''backbone'' config of
        Inl e \<Rightarrow> raise e
      | Inr config \<Rightarrow>
          (case deserialize_entry K ''preprocessor'' config of
             Inl e \<Rightarrow> raise e
           | Inr config \<Rightarrow> construct W c config))"

text \<open>
  What the round trip asks of the framework for a value \<open>v\<close>: if \<open>v\<close> serializes to a
  dictionary, that dictionary deserializes, to a value that serializes to the same
  dictionary again; if it serializes to anything else, as \<^verbatim>\<open>None\<close> does, it serializes to
  itself.
\<close>

definition round_trips :: "keras \<Rightarrow> val \<Rightarrow> bool" where
  "round_trips K v =
     (case layers_serialize K v of
        VDict d \<Rightarrow>
          (case layers_deserialize K d of
             Inl e \<Rightarrow> False
           | Inr v' \<Rightarrow> layers_serialize K v' = VDict d)
      | s \<Rightarrow> s = v)"

subsection \<open>\<^verbatim>\<open>layers\<close>\<close>

text \<open>
  Truth value of a Python value.  A framework object is true: layers define neither
  \<^verbatim>\<open>__bool__\<close> nor \<^verbatim>\<open>__len__\<close>.
\<close>

fun truthy :: "val \<Rightarrow> bool" where
  "truthy VNone = False"
| "truthy (VBool b) = b"
| "truthy (VStr s) = (s \<noteq> [])"
| "truthy (VTuple xs) = (xs \<noteq> [])"
| "truthy (VList xs) = (xs \<noteq> [])"
| "truthy (VDict d) = (d \<noteq> [])"
| "truthy (VObj c i) = True"

definition layers :: "keras \<Rightarrow> task \<Rightarrow> val list" where
  "layers K self =
     (let layers = super_layers K self
      in if truthy (preprocessor self) \<and> preprocessor self \<in> set layers
         then remove1 (preprocessor self) layers
         else layers)"

section \<open>A concrete world\<close>

text \<open>
  A small class world for evaluating the definitions.  \<^verbatim>\<open>Classifier\<close> is a task base class
  with three registered subclasses: two for the Bert backbone and one for the Gemma
  backbone.  \<^verbatim>\<open>BertMaskedLM\<close> is a task class unrelated to \<^verbatim>\<open>Classifier\<close>, and no task class
  is registered for the T5 backbone.
\<close>

definition Classifier :: cls where "Classifier = Class 1 ''Classifier''"
definition BertClassifier :: cls where "BertClassifier = Class 2 ''BertClassifier''"
definition BertTextClassifier :: cls where "BertTextClassifier = Class 3 ''BertTextClassifier''"
definition GemmaClassifier :: cls where "GemmaClassifier = Class 4 ''GemmaClassifier''"
definition BertMaskedLM :: cls where "BertMaskedLM = Class 5 ''BertMaskedLM''"
definition BertBackbone :: cls where "BertBackbone = Class 6 ''BertBackbone''"
definition GemmaBackbone :: cls where "GemmaBackbone = Class 7 ''GemmaBackbone''"
definition T5Backbone :: cls where "T5Backbone = Class 8 ''T5Backbone''"
definition GemmaPreprocessor :: cls where "GemmaPreprocessor = Class 9 ''GemmaPreprocessor''"
definition GemmaTokenizer :: cls where "GemmaTokenizer = Class 10 ''GemmaTokenizer''"

definition demo_issubclass :: "cls \<Rightarrow> cls \<Rightarrow> bool" where
  "demo_issubclass a b =
     (a = b \<or>
      (b = Task \<and>
         a \<in> {Classifier, BertClassifier, BertTextClassifier, GemmaClassifier, BertMaskedLM}) \<or>
      (b = Classifier \<and> a \<in> {BertClassifier, BertTextClassifier, GemmaClassifier}) \<or>
      (b = Backbone \<and> a \<in> {BertBackbone, GemmaBackbone, T5Backbone}))"

definition demo_backbone_cls :: "cls \<Rightarrow> cls option" where
  "demo_backbone_cls c =
     (if c = BertClassifier \<or> c = BertTextClassifier \<or> c = BertMaskedLM then Some BertBackbone
      else if c = GemmaClassifier then Some GemmaBackbone
      else None)"

definition demo_check_config_class :: "string \<Rightarrow> error + cls" where
  "demo_check_config_class preset =
     (if preset = ''bert_base_en'' then Inr BertBackbone
      else if preset = ''gemma_2b_en'' then Inr GemmaBackbone
      else if preset = ''t5_small'' then Inr T5Backbone
      else if preset = ''bert_mlm'' then Inr BertMaskedLM
      else Inl (OtherError ''preset not found''))"

definition demo_list_subclasses :: "cls \<Rightarrow> cls list" where
  "demo_list_subclasses c =
     (if c = Task then
        [Classifier, BertClassifier, BertTextClassifier, GemmaClassifier, BertMaskedLM]
      else if c = Classifier then [BertClassifier, BertTextClassifier, GemmaClassifier]
      else [])"

definition demo_list_presets :: "cls \<Rightarrow> dict" where
  "demo_list_presets c =
     (if c = BertClassifier then [(''bert_tiny_en_sst2'', VStr ''sst2'')]
      else if c = GemmaClassifier then [(''gemma_2b_en'', VStr ''tuned'')]
      else [])"

definition demo_backbone_presets :: "cls \<Rightarrow> dict" where
  "demo_backbone_presets c =
     (if c = BertBackbone then [(''bert_base_en'', VStr ''bert'')]
      else if c = GemmaBackbone then [(''gemma_2b_en'', VStr ''gemma'')]
      else [])"

definition demo_load_from_preset :: "string \<Rightarrow> bool \<Rightarrow> string \<Rightarrow> dict \<Rightarrow> error + val" where
  "demo_load_from_preset preset load_weights config_file config_overrides =
     (if config_file = ''tokenizer.json'' then Inr (VObj GemmaTokenizer 10)
      else Inr (VObj GemmaBackbone 11))"

definition demo_world :: world where
  "demo_world =
     \<lparr> issubclass = demo_issubclass,
       backbone_cls = demo_backbone_cls,
       preprocessor_cls = (\<lambda>c. if c = GemmaClassifier then Some GemmaPreprocessor else None),
       check_config_class = demo_check_config_class,
       list_subclasses = demo_list_subclasses,
       list_presets = demo_list_presets,
       backbone_presets = demo_backbone_presets,
       load_from_preset = demo_load_from_preset,
       init = (\<lambda>c kw. Inr (length kw + 20)),
       str_of = (\<lambda>v. ''<value>'') \<rparr>"

definition demo_rank :: "cls \<Rightarrow> nat" where
  "demo_rank c = (if c = Task then 2 else if c = Classifier then 1 else 0)"

text \<open>
  A framework to go with it: losses and activations resolve by name, a layer serializes to
  its class name, setting an attribute stores it, and three task instances: one never
  assigned to, one with a softmax head and a preprocessor, one with a linear head and no
  preprocessor.
\<close>

fun demo_losses_get :: "val \<Rightarrow> error + loss" where
  "demo_losses_get (VObj c i) = Inr (SparseCategoricalCrossentropy (i = 1))"
| "demo_losses_get (VStr s) =
     (if s = ''sparse_categorical_crossentropy'' then Inr sparse_categorical_crossentropy
      else if s = ''mse'' then Inr (OtherLoss 0)
      else Inl (ValueError ''Could not interpret loss identifier''))"
| "demo_losses_get v = Inr (OtherLoss 1)"

fun demo_activations_get :: "val \<Rightarrow> error + activation" where
  "demo_activations_get VNone = Inr Linear"
| "demo_activations_get (VStr s) =
     (if s = ''softmax'' then Inr Softmax
      else if s = ''linear'' then Inr Linear
      else if s = ''sigmoid'' then Inr (OtherActivation 0)
      else Inl (ValueError ''Could not interpret activation function identifier''))"
| "demo_activations_get v = Inr (OtherActivation 1)"

fun demo_serialize :: "val \<Rightarrow> val" where
  "demo_serialize (VObj c i) = VDict [(''class_name'', VStr (cname c)), (''config'', VDict [])]"
| "demo_serialize v = VNone"

definition demo_deserialize :: "dict \<Rightarrow> error + val" where
  "demo_deserialize d =
     (case map_of d ''class_name'' of
        Some (VStr n) \<Rightarrow> Inr (VObj (Class 0 n) 0)
      | _ \<Rightarrow> Inl (ValueError ''Could not deserialize''))"

definition demo_keras :: keras where
  "demo_keras =
     \<lparr> backend = ''tensorflow'',
       keras_3 = True,
       super_setattr = (\<lambda>self n v. self\<lparr>attrs := AList.update n v (attrs self)\<rparr>),
       losses_get = demo_losses_get,
       activations_get = demo_activations_get,
       super_compile = (\<lambda>self optimizer loss kwargs.
                          Inr (self\<lparr>attrs := AList.update ''compiled'' (VBool True) (attrs self)\<rparr>)),
       layers_serialize = demo_serialize,
       layers_deserialize = demo_deserialize,
       super_layers = (\<lambda>self. [VObj (Class 11 ''InputLayer'') 1, VObj GemmaBackbone 11,
                                VObj GemmaPreprocessor 21, VObj (Class 12 ''Dense'') 2]),
       call_layer = (\<lambda>layer x y sample_weight. Inr (VTuple [x], y, sample_weight)) \<rparr>"

definition fresh_task :: task where
  "fresh_task = \<lparr> task_cls = GemmaClassifier, name = ''gemma_classifier'', attrs = [] \<rparr>"

definition demo_task :: task where
  "demo_task =
     \<lparr> task_cls = GemmaClassifier, name = ''gemma_classifier'',
       attrs = [(''_backbone'', VObj GemmaBackbone 11),
                (''_preprocessor'', VObj GemmaPreprocessor 21),
                (''_initialized'', VBool True),
                (''activation'', VStr ''softmax'')] \<rparr>"

definition logits_task :: task where
  "logits_task =
     \<lparr> task_cls = GemmaClassifier, name = ''gemma_classifier'',
       attrs = [(''_backbone'', VObj GemmaBackbone 11),
                (''_initialized'', VBool True),
                (''activation'', VNone)] \<rparr>"

section \<open>Properties of \<^verbatim>\<open>from_preset\<close>\<close>

lemmas demo_classes =
  Classifier_def BertClassifier_def BertTextClassifier_def GemmaClassifier_def
  BertMaskedLM_def BertBackbone_def GemmaBackbone_def T5Backbone_def
  GemmaPreprocessor_def GemmaTokenizer_def

lemmas demo_defs =
  demo_world_def demo_issubclass_def demo_backbone_cls_def demo_check_config_class_def
  demo_list_subclasses_def demo_list_presets_def demo_backbone_presets_def
  demo_load_from_preset_def demo_classes

lemmas run_defs = ret_def raise_def invoke_def and_then_def construct_def

lemmas keras_defs = demo_keras_def demo_deserialize_def fresh_task_def demo_task_def

text \<open>
  C5.  Called on \<^verbatim>\<open>Task\<close> itself, \<^verbatim>\<open>from_preset\<close> raises the usage error whatever the
  preset, the flag and the keyword arguments are, and whatever the collaborators would do:
  the run makes no call at all, so the preset is never inspected.
\<close>

theorem from_preset_on_Task_raises:
  "from_preset W Task preset load_weights kwargs = (Inl (ValueError msg_direct_call), [])"
  by (simp add: from_preset_def raise_def)

text \<open>
  C8.  Called on a task class other than \<^verbatim>\<open>Task\<close> with a \<^verbatim>\<open>backbone\<close> keyword argument,
  \<^verbatim>\<open>from_preset\<close> raises the usage error that sends the caller to the class's default
  constructor, whatever the preset is; the run makes no call, so nothing is loaded.  (On
  \<^verbatim>\<open>Task\<close> itself the check of C5 comes first.)
\<close>

theorem from_preset_backbone_kwarg_raises:
  assumes "c \<noteq> Task" and "map_of kwargs ''backbone'' = Some b"
  shows "from_preset W c preset load_weights kwargs =
           (Inl (ValueError (msg_backbone_arg W c b)), [])"
  using assms by (simp add: from_preset_def raise_def)

theorem from_preset_backbone_kwarg_raises_witness:
  "Classifier \<noteq> Task
   \<and> map_of [(''num_classes'', VStr ''2''), (''backbone'', VObj BertBackbone 11)] ''backbone''
       = Some (VObj BertBackbone 11)
   \<and> from_preset demo_world Classifier ''bert_base_en'' True
         [(''num_classes'', VStr ''2''), (''backbone'', VObj BertBackbone 11)] =
       (Inl (ValueError
          (''You cannot pass a `backbone` argument to the `from_preset` method. '' @
           ''Instead, call the Classifier default constructor with a `backbone` argument. '' @
           ''Received: backbone=<value>.'')), [])"
  using from_preset_backbone_kwarg_raises
    [of Classifier "[(''num_classes'', VStr ''2''), (''backbone'', VObj BertBackbone 11)]"
        "VObj BertBackbone 11" demo_world "''bert_base_en''" True]
  by (simp add: msg_backbone_arg_def demo_defs)

text \<open>
  C6.  Called on a task class with a preset whose declared class is no backbone class and
  no subclass of the calling class (\<^verbatim>\<open>issubclass\<close> holds of a class and itself, so this
  excludes the calling class), \<^verbatim>\<open>from_preset\<close> raises the type-mismatch error.  The message
  names the preset's class and ends by telling the caller to call \<^verbatim>\<open>from_preset\<close> on that
  class.  Only the preset's class was looked up.
\<close>

theorem from_preset_unrelated_task_raises:
  assumes "c \<noteq> Task" and "map_of kwargs ''backbone'' = None"
    and "check_config_class W preset = Inr preset_cls"
    and "\<not> issubclass W preset_cls Backbone"
    and "\<not> issubclass W preset_cls c"
  shows "from_preset W c preset load_weights kwargs =
           (Inl (ValueError (msg_not_subclass c preset_cls)), [CheckConfigClass preset])
         \<and> sublist (''Preset has type `'' @ cname preset_cls @ ''`'')
             (msg_not_subclass c preset_cls)
         \<and> suffix (''Call `from_preset` directly on `'' @ cname preset_cls @ ''` instead.'')
             (msg_not_subclass c preset_cls)"
proof -
  have "from_preset W c preset load_weights kwargs =
          (Inl (ValueError (msg_not_subclass c preset_cls)), [CheckConfigClass preset])"
    using assms by (simp add: from_preset_def run_defs)
  moreover have "sublist (''Preset has type `'' @ cname preset_cls @ ''`'')
                   (msg_not_subclass c preset_cls)"
    unfolding msg_not_subclass_def sublist_def
    by (rule exI[of _ "[]"]) simp
  moreover have "suffix (''Call `from_preset` directly on `'' @ cname preset_cls @ ''` instead.'')
                   (msg_not_subclass c preset_cls)"
    unfolding msg_not_subclass_def suffix_def by simp
  ultimately show ?thesis by simp
qed

theorem from_preset_unrelated_task_raises_witness:
  "Classifier \<noteq> Task
   \<and> check_config_class demo_world ''bert_mlm'' = Inr BertMaskedLM
   \<and> \<not> issubclass demo_world BertMaskedLM Backbone
   \<and> \<not> issubclass demo_world BertMaskedLM Classifier
   \<and> from_preset demo_world Classifier ''bert_mlm'' True [] =
       (Inl (ValueError
          (''Preset has type `BertMaskedLM` which is not a a subclass of calling class '' @
           ''`Classifier`. Call `from_preset` directly on `BertMaskedLM` instead.'')),
        [CheckConfigClass ''bert_mlm''])"
  using from_preset_unrelated_task_raises
    [of Classifier "[]" demo_world "''bert_mlm''" BertMaskedLM True]
  by (simp add: msg_not_subclass_def demo_defs)

text \<open>What the backbone case returns, and when it returns.\<close>

lemma load_backbone_case_Inr:
  "fst (load_backbone_case W s preset lw kwargs) = Inr v \<Longrightarrow> \<exists>i. v = VObj s i"
  by (auto simp: load_backbone_case_def run_defs Let_def
           split: sum.splits option.splits prod.splits)

lemma load_backbone_case_succeeds:
  assumes "\<forall>p l f ov. \<exists>v. load_from_preset W p l f ov = Inr v"
    and "\<forall>k kw. \<exists>i. init W k kw = Inr i"
    and "map_of kwargs ''preprocessor'' \<noteq> None \<or> preprocessor_cls W s \<noteq> None"
  shows "\<exists>i. fst (load_backbone_case W s preset lw kwargs) = Inr (VObj s i)"
proof -
  have pre: "map_of (AList.delete ''dtype'' kwargs) ''preprocessor''
               = map_of kwargs ''preprocessor''"
    by (simp add: AList.delete_conv')
  from assms(1) obtain bb where bb:
    "load_from_preset W preset lw ''config.json''
       (case map_of kwargs ''dtype'' of None \<Rightarrow> [] | Some d \<Rightarrow> [(''dtype'', d)]) = Inr bb"
    by blast
  from assms(1) obtain tok where tok:
    "load_from_preset W preset True ''tokenizer.json'' [] = Inr tok"
    by blast
  show ?thesis
  proof (cases "map_of kwargs ''preprocessor''")
    case (Some p)
    from assms(2) obtain i where
      "init W s ((''backbone'', bb) # (''preprocessor'', p) #
                 AList.delete ''preprocessor'' (AList.delete ''dtype'' kwargs)) = Inr i"
      by blast
    then show ?thesis using Some bb pre
      by (simp add: load_backbone_case_def run_defs Let_def)
  next
    case None
    with assms(3) obtain pc where pc: "preprocessor_cls W s = Some pc" by auto
    from assms(2) obtain j where j: "init W pc [(''tokenizer'', tok)] = Inr j" by blast
    from assms(2) obtain i where
      "init W s ((''backbone'', bb) # (''preprocessor'', VObj pc j) #
                 AList.delete ''preprocessor'' (AList.delete ''dtype'' kwargs)) = Inr i"
      by blast
    then show ?thesis using None bb pre tok pc j
      by (simp add: load_backbone_case_def run_defs Let_def)
  qed
qed

lemma resolve_cls_none:
  assumes "backbone_cls W c \<noteq> Some preset_cls"
    and "filter (\<lambda>x. backbone_cls W x = Some preset_cls) (list_subclasses W c) = []"
  shows "resolve_cls W c preset_cls = (Inl (ValueError (msg_no_subclass c preset_cls)), [])"
  using assms by (auto simp: resolve_cls_def raise_def Let_def)

lemma resolve_cls_many:
  assumes "backbone_cls W c \<noteq> Some preset_cls"
    and "length (filter (\<lambda>x. backbone_cls W x = Some preset_cls) (list_subclasses W c)) > 1"
  shows "resolve_cls W c preset_cls =
           (Inl (ValueError (msg_ambiguous c
              (filter (\<lambda>x. backbone_cls W x = Some preset_cls) (list_subclasses W c)))), [])"
  using assms by (auto simp: resolve_cls_def raise_def Let_def)

lemma resolve_cls_one:
  assumes "backbone_cls W c \<noteq> Some preset_cls"
    and "filter (\<lambda>x. backbone_cls W x = Some preset_cls) (list_subclasses W c) = [s]"
  shows "resolve_cls W c preset_cls = (Inr s, [])"
  using assms by (auto simp: resolve_cls_def ret_def Let_def)

lemma from_preset_backbone_step:
  assumes "c \<noteq> Task" and "map_of kwargs ''backbone'' = None"
    and "check_config_class W preset = Inr preset_cls"
    and "issubclass W preset_cls Backbone"
  shows "from_preset W c preset load_weights kwargs =
           and_then (invoke (CheckConfigClass preset) (Inr preset_cls))
             (\<lambda>_. and_then (resolve_cls W c preset_cls)
                (\<lambda>c'. load_backbone_case W c' preset load_weights kwargs))"
  using assms by (simp add: from_preset_def run_defs)

text \<open>
  C1.  \<^verbatim>\<open>from_preset\<close> on a task class other than \<^verbatim>\<open>Task\<close>, without a \<^verbatim>\<open>backbone\<close> argument,
  with a preset whose declared class is a backbone class that is not the calling class's
  \<^verbatim>\<open>backbone_cls\<close>.  Let \<open>matches\<close> be the registered subclasses of the calling class whose
  \<^verbatim>\<open>backbone_cls\<close> is the preset's class.  If there is none, the call raises the error that
  no registered subclass can load that backbone; if there are several, it raises the
  ambiguity error, which ends by asking to call \<^verbatim>\<open>from_preset\<close> on a subclass directly; in
  both cases only the preset's class was looked up.  If there is exactly one, \<open>s\<close>, then \<open>s\<close>
  is not the calling class, every value the call returns is an instance of \<open>s\<close>, and the
  call does return one whenever no collaborator raises and a preprocessor is passed or \<open>s\<close>
  has a \<^verbatim>\<open>preprocessor_cls\<close>.
\<close>

theorem from_preset_backbone_resolution:
  assumes "c \<noteq> Task" and "map_of kwargs ''backbone'' = None"
    and "check_config_class W preset = Inr preset_cls"
    and "issubclass W preset_cls Backbone"
    and "backbone_cls W c \<noteq> Some preset_cls"
  shows
    "(let matches = filter (\<lambda>x. backbone_cls W x = Some preset_cls) (list_subclasses W c);
          outcome = from_preset W c preset load_weights kwargs
      in (length matches = 0 \<longrightarrow>
            outcome = (Inl (ValueError (msg_no_subclass c preset_cls)),
                       [CheckConfigClass preset]))
       \<and> (length matches > 1 \<longrightarrow>
            outcome = (Inl (ValueError (msg_ambiguous c matches)), [CheckConfigClass preset])
            \<and> suffix ''Please call `from_preset` on a subclass directly.''
                 (msg_ambiguous c matches))
       \<and> (\<forall>s. matches = [s] \<longrightarrow>
            s \<noteq> c \<and> s \<in> set (list_subclasses W c) \<and> backbone_cls W s = Some preset_cls
            \<and> (\<forall>v. fst outcome = Inr v \<longrightarrow> (\<exists>i. v = VObj s i))
            \<and> ((\<forall>p l f ov. \<exists>v. load_from_preset W p l f ov = Inr v)
                 \<and> (\<forall>k kw. \<exists>i. init W k kw = Inr i)
                 \<and> (map_of kwargs ''preprocessor'' \<noteq> None \<or> preprocessor_cls W s \<noteq> None)
               \<longrightarrow> (\<exists>i. fst outcome = Inr (VObj s i)))))"
proof -
  let ?matches = "filter (\<lambda>x. backbone_cls W x = Some preset_cls) (list_subclasses W c)"
  let ?outcome = "from_preset W c preset load_weights kwargs"
  note step = from_preset_backbone_step [OF assms(1-4), of load_weights]
  have none: "length ?matches = 0 \<longrightarrow>
      ?outcome = (Inl (ValueError (msg_no_subclass c preset_cls)), [CheckConfigClass preset])"
    using resolve_cls_none [OF assms(5)] by (simp add: step run_defs)
  have many: "length ?matches > 1 \<longrightarrow>
      ?outcome = (Inl (ValueError (msg_ambiguous c ?matches)), [CheckConfigClass preset])
      \<and> suffix ''Please call `from_preset` on a subclass directly.'' (msg_ambiguous c ?matches)"
    using resolve_cls_many [OF assms(5)]
    by (simp add: step run_defs msg_ambiguous_def suffix_def)
  have one: "s \<noteq> c \<and> s \<in> set (list_subclasses W c) \<and> backbone_cls W s = Some preset_cls
            \<and> (\<forall>v. fst ?outcome = Inr v \<longrightarrow> (\<exists>i. v = VObj s i))
            \<and> ((\<forall>p l f ov. \<exists>v. load_from_preset W p l f ov = Inr v)
                 \<and> (\<forall>k kw. \<exists>i. init W k kw = Inr i)
                 \<and> (map_of kwargs ''preprocessor'' \<noteq> None \<or> preprocessor_cls W s \<noteq> None)
               \<longrightarrow> (\<exists>i. fst ?outcome = Inr (VObj s i)))" if m: "?matches = [s]" for s
  proof -
    have "s \<in> set ?matches" using m by simp
    then have mem: "s \<in> set (list_subclasses W c)"
      and bb: "backbone_cls W s = Some preset_cls"
      by auto
    with assms(5) have neq: "s \<noteq> c" by auto
    have out: "?outcome =
        (case load_backbone_case W s preset load_weights kwargs of
           (r, calls) \<Rightarrow> (r, CheckConfigClass preset # calls))"
      using resolve_cls_one [OF assms(5) m] by (simp add: step run_defs split: prod.splits)
    then have fst_out: "fst ?outcome = fst (load_backbone_case W s preset load_weights kwargs)"
      by (simp split: prod.splits)
    show ?thesis
      using mem bb neq load_backbone_case_Inr [of W s preset load_weights kwargs]
        load_backbone_case_succeeds [of W kwargs s preset load_weights]
      unfolding fst_out by blast
  qed
  show ?thesis unfolding Let_def using none many one by blast
qed

theorem from_preset_backbone_resolution_witness:
  "Classifier \<noteq> Task
   \<and> check_config_class demo_world ''gemma_2b_en'' = Inr GemmaBackbone
   \<and> issubclass demo_world GemmaBackbone Backbone
   \<and> backbone_cls demo_world Classifier \<noteq> Some GemmaBackbone
   \<and> filter (\<lambda>x. backbone_cls demo_world x = Some GemmaBackbone)
        (list_subclasses demo_world Classifier) = [GemmaClassifier]
   \<and> (\<exists>i. fst (from_preset demo_world Classifier ''gemma_2b_en'' True
                  [(''num_classes'', VStr ''2'')]) = Inr (VObj GemmaClassifier i))
   \<and> from_preset demo_world Classifier ''t5_small'' True [] =
       (Inl (ValueError ''No registered subclass of `Classifier` can load a `T5Backbone`.''),
        [CheckConfigClass ''t5_small''])
   \<and> from_preset demo_world Classifier ''bert_base_en'' True [] =
       (Inl (ValueError
          (''Ambiguous call to `Classifier.from_preset()`. Found multiple possible '' @
           ''subclasses `BertClassifier`, `BertTextClassifier`. '' @
           ''Please call `from_preset` on a subclass directly.'')),
        [CheckConfigClass ''bert_base_en''])"
proof -
  have one: "\<exists>i. fst (from_preset demo_world Classifier ''gemma_2b_en'' True
                  [(''num_classes'', VStr ''2'')]) = Inr (VObj GemmaClassifier i)"
    using from_preset_backbone_resolution
      [of Classifier "[(''num_classes'', VStr ''2'')]" demo_world "''gemma_2b_en''"
          GemmaBackbone True]
    by (simp add: demo_defs Let_def)
  have none: "from_preset demo_world Classifier ''t5_small'' True [] =
       (Inl (ValueError ''No registered subclass of `Classifier` can load a `T5Backbone`.''),
        [CheckConfigClass ''t5_small''])"
    using from_preset_backbone_resolution
      [of Classifier "[]" demo_world "''t5_small''" T5Backbone True]
    by (simp add: demo_defs Let_def msg_no_subclass_def)
  have many: "from_preset demo_world Classifier ''bert_base_en'' True [] =
       (Inl (ValueError
          (''Ambiguous call to `Classifier.from_preset()`. Found multiple possible '' @
           ''subclasses `BertClassifier`, `BertTextClassifier`. '' @
           ''Please call `from_preset` on a subclass directly.'')),
        [CheckConfigClass ''bert_base_en''])"
    using from_preset_backbone_resolution
      [of Classifier "[]" demo_world "''bert_base_en''" BertBackbone True]
    by (simp add: demo_defs Let_def msg_ambiguous_def)
  show ?thesis using one none many by (simp add: demo_defs)
qed

section \<open>Properties of \<^verbatim>\<open>presets\<close>\<close>

lemma keys_dict_update:
  "fst ` set (dict_update d other) = fst ` set d \<union> fst ` set other"
  unfolding dict_update_def
proof (induction other arbitrary: d)
  case Nil
  then show ?case by simp
next
  case (Cons e other)
  obtain k v where e: "e = (k, v)" by (cases e)
  have "fst ` set (fold (\<lambda>(k, v). AList.update k v) other (AList.update k v d))
          = fst ` set (AList.update k v d) \<union> fst ` set other"
    by (rule Cons.IH)
  also have "fst ` set (AList.update k v d) = insert k (fst ` set d)"
    by (simp add: dom_update)
  finally show ?case by (simp add: e)
qed

lemma distinct_dict_update:
  "distinct (map fst d) \<Longrightarrow> distinct (map fst (dict_update d other))"
  unfolding dict_update_def
  by (induction other arbitrary: d) (simp_all add: distinct_update split_beta)

lemma set_update_subset: "set (AList.update k v al) \<subseteq> insert (k, v) (set al)"
  by (induction al) auto

lemma set_dict_update:
  "set (dict_update d other) \<subseteq> set d \<union> set other"
  unfolding dict_update_def
proof (induction other arbitrary: d)
  case Nil
  then show ?case by simp
next
  case (Cons e other)
  obtain k v where e: "e = (k, v)" by (cases e)
  have "set (fold (\<lambda>(k, v). AList.update k v) other (AList.update k v d))
          \<subseteq> set (AList.update k v d) \<union> set other"
    by (rule Cons.IH)
  also have "\<dots> \<subseteq> insert (k, v) (set d) \<union> set other"
    using set_update_subset [of k v d] by blast
  finally show ?case by (auto simp: e)
qed

lemma presets_Suc:
  "presets (Suc fuel) W c =
     fold (merge_subclass fuel W) (list_subclasses W c)
       (Some (case backbone_cls W c of
                None \<Rightarrow> list_presets W c
              | Some b \<Rightarrow> dict_update (list_presets W c) (backbone_presets W b)))"
proof -
  have "merge_subclass fuel W = (\<lambda>subclass acc.
                 case acc of
                   None \<Rightarrow> None
                 | Some d \<Rightarrow>
                     (case presets fuel W subclass of
                        None \<Rightarrow> None
                      | Some ds \<Rightarrow> Some (dict_update d ds)))"
    by (intro ext) (simp add: merge_subclass_def)
  then show ?thesis by (simp add: Let_def)
qed

lemma fold_merge_None: "fold (merge_subclass n W) subs None = None"
  by (induction subs) (simp_all add: merge_subclass_def)

lemma fold_merge_Some:
  assumes "\<forall>s \<in> set subs. \<exists>ds. presets n W s = Some ds"
  shows "\<exists>d'. fold (merge_subclass n W) subs (Some d) = Some d'
           \<and> fst ` set d' =
               fst ` set d \<union> (\<Union>s \<in> set subs. {k. \<exists>ds. presets n W s = Some ds \<and> k \<in> fst ` set ds})
           \<and> set d' \<subseteq>
               set d \<union> (\<Union>s \<in> set subs. {e. \<exists>ds. presets n W s = Some ds \<and> e \<in> set ds})
           \<and> (distinct (map fst d) \<longrightarrow> distinct (map fst d'))"
  using assms
proof (induction subs arbitrary: d)
  case Nil
  then show ?case by simp
next
  case (Cons s subs)
  from Cons.prems obtain ds where ds: "presets n W s = Some ds" by auto
  from Cons.prems have rest: "\<forall>s \<in> set subs. \<exists>ds. presets n W s = Some ds" by simp
  from Cons.IH [OF rest, of "dict_update d ds"]
  obtain d' where d': "fold (merge_subclass n W) subs (Some (dict_update d ds)) = Some d'"
    and k: "fst ` set d' = fst ` set (dict_update d ds) \<union>
              (\<Union>s \<in> set subs. {k. \<exists>ds. presets n W s = Some ds \<and> k \<in> fst ` set ds})"
    and e: "set d' \<subseteq> set (dict_update d ds) \<union>
              (\<Union>s \<in> set subs. {e. \<exists>ds. presets n W s = Some ds \<and> e \<in> set ds})"
    and di: "distinct (map fst (dict_update d ds)) \<longrightarrow> distinct (map fst d')"
    by blast
  have run: "fold (merge_subclass n W) (s # subs) (Some d) = Some d'"
    using d' ds by (simp add: merge_subclass_def)
  have keys: "fst ` set d' =
               fst ` set d \<union> (\<Union>s \<in> set (s # subs). {k. \<exists>ds. presets n W s = Some ds \<and> k \<in> fst ` set ds})"
    using k ds by (auto simp: keys_dict_update)
  have entries: "set d' \<subseteq>
               set d \<union> (\<Union>s \<in> set (s # subs). {e. \<exists>ds. presets n W s = Some ds \<and> e \<in> set ds})"
    using e ds set_dict_update [of d ds] by auto
  have dist: "distinct (map fst d) \<longrightarrow> distinct (map fst d')"
    using di distinct_dict_update by blast
  from run keys entries dist show ?case by blast
qed

lemma presets_defined:
  assumes "\<forall>c'. \<forall>s \<in> set (list_subclasses W c'). rank s < rank c'"
  shows "rank c < n \<Longrightarrow> \<exists>d. presets n W c = Some d"
proof (induction n arbitrary: c)
  case 0
  then show ?case by simp
next
  case (Suc n)
  have "\<forall>s \<in> set (list_subclasses W c). \<exists>ds. presets n W s = Some ds"
  proof
    fix s assume "s \<in> set (list_subclasses W c)"
    with assms have "rank s < rank c" by blast
    with Suc.prems have "rank s < n" by simp
    then show "\<exists>ds. presets n W s = Some ds" by (rule Suc.IH)
  qed
  from fold_merge_Some [OF this] show ?case
    unfolding presets_Suc by blast
qed

lemma fold_merge_mono:
  assumes "\<And>s ds. presets n W s = Some ds \<Longrightarrow> presets m W s = Some ds"
  shows "fold (merge_subclass n W) subs acc = Some d \<Longrightarrow>
         fold (merge_subclass m W) subs acc = Some d"
proof (induction subs arbitrary: acc)
  case Nil
  then show ?case by simp
next
  case (Cons s subs)
  show ?case
  proof (cases "merge_subclass n W s acc")
    case None
    with Cons.prems show ?thesis by (simp add: fold_merge_None)
  next
    case (Some a)
    then have "merge_subclass m W s acc = Some a"
      using assms by (auto simp: merge_subclass_def split: option.splits)
    with Some Cons show ?thesis by simp
  qed
qed

lemma presets_more_fuel:
  "presets n W c = Some d \<Longrightarrow> n \<le> m \<Longrightarrow> presets m W c = Some d"
proof (induction n arbitrary: c m d)
  case 0
  then show ?case by simp
next
  case (Suc n)
  from Suc.prems(2) obtain m' where m: "m = Suc m'" and le: "n \<le> m'"
    by (cases m) auto
  have "fold (merge_subclass m' W) (list_subclasses W c)
       (Some (case backbone_cls W c of
                None \<Rightarrow> list_presets W c
              | Some b \<Rightarrow> dict_update (list_presets W c) (backbone_presets W b))) = Some d"
    using Suc.prems(1) unfolding presets_Suc
    by (rule fold_merge_mono [rotated]) (rule Suc.IH [OF _ le])
  then show ?case unfolding m presets_Suc .
qed

text \<open>
  C7.  Let the registered subclasses be well founded (some rank goes down from every class
  to each of its registered subclasses), let the recursion have room for the rank of the
  class, and let the presets declared on the class be a dictionary (no key twice).  Then
  \<^verbatim>\<open>presets\<close> returns, and returns the same dictionary however much more room it is given.
  The dictionary has no key twice; its keys are exactly the keys declared on the class, the
  keys of the presets of its \<^verbatim>\<open>backbone_cls\<close> when that is set, and the keys of the
  \<^verbatim>\<open>presets\<close> of every registered subclass (which are defined, and are such unions
  themselves); and each of its entries is an entry of one of these.
\<close>

theorem presets_union:
  assumes "\<forall>c'. \<forall>s \<in> set (list_subclasses W c'). rank s < rank c'"
    and "rank c < fuel"
    and "distinct (map fst (list_presets W c))"
  shows "\<exists>d. presets fuel W c = Some d
           \<and> (\<forall>n. rank c < n \<longrightarrow> presets n W c = Some d)
           \<and> distinct (map fst d)
           \<and> fst ` set d =
               fst ` set (list_presets W c)
               \<union> (case backbone_cls W c of
                     None \<Rightarrow> {}
                   | Some b \<Rightarrow> fst ` set (backbone_presets W b))
               \<union> (\<Union>s \<in> set (list_subclasses W c).
                     {k. \<exists>ds. presets fuel W s = Some ds \<and> k \<in> fst ` set ds})
           \<and> set d \<subseteq>
               set (list_presets W c)
               \<union> (case backbone_cls W c of None \<Rightarrow> {} | Some b \<Rightarrow> set (backbone_presets W b))
               \<union> (\<Union>s \<in> set (list_subclasses W c).
                     {e. \<exists>ds. presets fuel W s = Some ds \<and> e \<in> set ds})
           \<and> (\<forall>s \<in> set (list_subclasses W c). \<exists>ds. presets fuel W s = Some ds)"
proof -
  from assms(2) obtain n where fuel: "fuel = Suc n" by (cases fuel) auto
  let ?p1 = "case backbone_cls W c of
               None \<Rightarrow> list_presets W c
             | Some b \<Rightarrow> dict_update (list_presets W c) (backbone_presets W b)"
  have sub_n: "\<forall>s \<in> set (list_subclasses W c). \<exists>ds. presets n W s = Some ds"
  proof
    fix s assume "s \<in> set (list_subclasses W c)"
    with assms(1) have "rank s < rank c" by blast
    with assms(2) fuel have "rank s < n" by simp
    with assms(1) show "\<exists>ds. presets n W s = Some ds" by (rule presets_defined)
  qed
  have same: "presets fuel W s = presets n W s" if "s \<in> set (list_subclasses W c)" for s
  proof -
    from sub_n that obtain ds where "presets n W s = Some ds" by blast
    moreover from this have "presets fuel W s = Some ds"
      by (rule presets_more_fuel) (simp add: fuel)
    ultimately show ?thesis by simp
  qed
  from fold_merge_Some [OF sub_n, of ?p1]
  obtain d where run: "fold (merge_subclass n W) (list_subclasses W c) (Some ?p1) = Some d"
    and k: "fst ` set d = fst ` set ?p1 \<union>
              (\<Union>s \<in> set (list_subclasses W c).
                 {k. \<exists>ds. presets n W s = Some ds \<and> k \<in> fst ` set ds})"
    and e: "set d \<subseteq> set ?p1 \<union>
              (\<Union>s \<in> set (list_subclasses W c). {e. \<exists>ds. presets n W s = Some ds \<and> e \<in> set ds})"
    and di: "distinct (map fst ?p1) \<longrightarrow> distinct (map fst d)"
    by blast
  have res: "presets fuel W c = Some d"
    unfolding fuel presets_Suc using run .
  have indep: "\<forall>m. rank c < m \<longrightarrow> presets m W c = Some d"
  proof (intro allI impI)
    fix m assume m: "rank c < m"
    with assms(1) obtain d' where d': "presets m W c = Some d'"
      using presets_defined by blast
    show "presets m W c = Some d"
    proof (cases "m \<le> fuel")
      case True
      from presets_more_fuel [OF d' True] res d' show ?thesis by simp
    next
      case False
      then have "fuel \<le> m" by simp
      from presets_more_fuel [OF res this] show ?thesis .
    qed
  qed
  have p1_keys: "fst ` set ?p1 = fst ` set (list_presets W c)
               \<union> (case backbone_cls W c of
                     None \<Rightarrow> {}
                   | Some b \<Rightarrow> fst ` set (backbone_presets W b))"
    by (simp add: keys_dict_update split: option.splits)
  have p1_entries: "set ?p1 \<subseteq> set (list_presets W c)
               \<union> (case backbone_cls W c of None \<Rightarrow> {} | Some b \<Rightarrow> set (backbone_presets W b))"
    using set_dict_update by (simp split: option.splits)
  have p1_distinct: "distinct (map fst ?p1)"
    using assms(3) by (simp add: distinct_dict_update split: option.splits)
  have keys: "fst ` set d =
               fst ` set (list_presets W c)
               \<union> (case backbone_cls W c of
                     None \<Rightarrow> {}
                   | Some b \<Rightarrow> fst ` set (backbone_presets W b))
               \<union> (\<Union>s \<in> set (list_subclasses W c).
                     {k. \<exists>ds. presets fuel W s = Some ds \<and> k \<in> fst ` set ds})"
    unfolding k p1_keys using same by auto
  have entries: "set d \<subseteq>
               set (list_presets W c)
               \<union> (case backbone_cls W c of None \<Rightarrow> {} | Some b \<Rightarrow> set (backbone_presets W b))
               \<union> (\<Union>s \<in> set (list_subclasses W c).
                     {e. \<exists>ds. presets fuel W s = Some ds \<and> e \<in> set ds})"
  proof
    fix x assume "x \<in> set d"
    with e have "x \<in> set ?p1 \<or> (\<exists>s \<in> set (list_subclasses W c).
                    \<exists>ds. presets n W s = Some ds \<and> x \<in> set ds)" by auto
    then show "x \<in> set (list_presets W c)
               \<union> (case backbone_cls W c of None \<Rightarrow> {} | Some b \<Rightarrow> set (backbone_presets W b))
               \<union> (\<Union>s \<in> set (list_subclasses W c).
                     {e. \<exists>ds. presets fuel W s = Some ds \<and> e \<in> set ds})"
      using p1_entries same by auto
  qed
  have subs: "\<forall>s \<in> set (list_subclasses W c). \<exists>ds. presets fuel W s = Some ds"
    using sub_n same by simp
  from res indep di p1_distinct keys entries subs show ?thesis by blast
qed

theorem presets_union_witness:
  "demo_rank Classifier < 2
   \<and> distinct (map fst (list_presets demo_world Classifier))
   \<and> presets 2 demo_world Classifier =
       Some [(''bert_tiny_en_sst2'', VStr ''sst2''), (''bert_base_en'', VStr ''bert''),
             (''gemma_2b_en'', VStr ''gemma'')]
   \<and> presets 5 demo_world Classifier = presets 2 demo_world Classifier"
proof -
  have wf: "\<forall>c'. \<forall>s \<in> set (list_subclasses demo_world c'). demo_rank s < demo_rank c'"
    by (simp add: demo_defs demo_rank_def)
  have r: "demo_rank Classifier < 2" by (simp add: demo_rank_def demo_classes)
  have d: "distinct (map fst (list_presets demo_world Classifier))"
    by (simp add: demo_defs)
  have v: "presets 2 demo_world Classifier =
       Some [(''bert_tiny_en_sst2'', VStr ''sst2''), (''bert_base_en'', VStr ''bert''),
             (''gemma_2b_en'', VStr ''gemma'')]"
    by (simp add: eval_nat_numeral dict_update_def demo_defs)
  from presets_union [OF wf r d] obtain dd where
    "presets 2 demo_world Classifier = Some dd"
    "\<forall>n. demo_rank Classifier < n \<longrightarrow> presets n demo_world Classifier = Some dd"
    by blast
  then have "presets 5 demo_world Classifier = presets 2 demo_world Classifier"
    using r by simp
  with r d v show ?thesis by simp
qed

section \<open>Properties of the instance methods\<close>

lemma setattr_Task_stores:
  assumes "\<forall>s n v. map_of (attrs (super_setattr K s n v)) = (map_of (attrs s))(n \<mapsto> v)"
  shows "map_of (attrs (setattr_Task K self n v)) = (map_of (attrs self))(n \<mapsto> v)"
  using assms by (simp add: setattr_Task_def object_setattr_def Let_def update_conv')

text \<open>
  C10.  On an instance whose \<^verbatim>\<open>_backbone\<close> (\<^verbatim>\<open>_preprocessor\<close>) was never assigned, the
  \<^verbatim>\<open>backbone\<close> (\<^verbatim>\<open>preprocessor\<close>) property is \<^verbatim>\<open>None\<close>: the getter returns a value, it
  never raises.  Where the framework's \<^verbatim>\<open>__setattr__\<close> stores the value under the name and
  leaves the other names alone, reading a property after its setter gives the value just
  assigned, and the setter of one property leaves the other as it was, so each property
  reads as the last value assigned to it.
\<close>

theorem backbone_preprocessor_properties:
  "(\<not> hasattr self ''_backbone'' \<longrightarrow> backbone self = VNone)
   \<and> (\<not> hasattr self ''_preprocessor'' \<longrightarrow> preprocessor self = VNone)
   \<and> ((\<forall>s n v. map_of (attrs (super_setattr K s n v)) = (map_of (attrs s))(n \<mapsto> v)) \<longrightarrow>
         backbone (backbone_setter K self v) = v
       \<and> preprocessor (preprocessor_setter K self v) = v
       \<and> backbone (preprocessor_setter K self v) = backbone self
       \<and> preprocessor (backbone_setter K self v) = preprocessor self)"
proof -
  have unset: "\<not> hasattr self n \<longrightarrow> getattr_default self n VNone = VNone" for n
    by (simp add: hasattr_def getattr_default_def)
  have set: "getattr_default (setattr_Task K self n v) m VNone =
               (if m = n then v else getattr_default self m VNone)"
    if "\<forall>s n v. map_of (attrs (super_setattr K s n v)) = (map_of (attrs s))(n \<mapsto> v)" for n m
    using setattr_Task_stores [OF that, of self n v] by (simp add: getattr_default_def)
  show ?thesis
    using unset set
    by (simp add: backbone_def preprocessor_def backbone_setter_def preprocessor_setter_def)
qed

theorem backbone_preprocessor_properties_witness:
  "\<not> hasattr fresh_task ''_backbone'' \<and> backbone fresh_task = VNone
   \<and> \<not> hasattr fresh_task ''_preprocessor'' \<and> preprocessor fresh_task = VNone
   \<and> backbone (backbone_setter demo_keras fresh_task (VObj GemmaBackbone 11)) = VObj GemmaBackbone 11
   \<and> backbone (backbone_setter demo_keras demo_task VNone) = VNone
   \<and> preprocessor (preprocessor_setter demo_keras demo_task VNone) = VNone
   \<and> backbone (preprocessor_setter demo_keras demo_task VNone) = VObj GemmaBackbone 11"
proof -
  have stores: "\<forall>s n v. map_of (attrs (super_setattr demo_keras s n v)) = (map_of (attrs s))(n \<mapsto> v)"
    by (simp add: demo_keras_def update_conv')
  show ?thesis
    using backbone_preprocessor_properties [of fresh_task demo_keras "VObj GemmaBackbone 11"]
      backbone_preprocessor_properties [of demo_task demo_keras VNone] stores
    by (simp add: hasattr_def fresh_task_def) (simp add: backbone_def getattr_default_def demo_task_def)
qed

text \<open>
  C4.  With a preprocessor set, \<^verbatim>\<open>preprocess_samples\<close> returns exactly what calling the
  preprocessor on \<^verbatim>\<open>(x, y, sample_weight)\<close> returns (its result or its exception).  With
  the preprocessor \<^verbatim>\<open>None\<close> it returns \<^verbatim>\<open>x\<close>, \<^verbatim>\<open>y\<close> and \<^verbatim>\<open>sample_weight\<close> unchanged.
\<close>

theorem preprocess_samples_delegates:
  "(preprocessor self \<noteq> VNone \<longrightarrow>
      preprocess_samples K self x y sample_weight =
        call_layer K (preprocessor self) x y sample_weight)
   \<and> (preprocessor self = VNone \<longrightarrow>
      preprocess_samples K self x y sample_weight = Inr (x, y, sample_weight))"
  by (simp add: preprocess_samples_def super_preprocess_samples_def)

theorem preprocess_samples_delegates_witness:
  "preprocessor demo_task \<noteq> VNone
   \<and> preprocess_samples demo_keras demo_task (VStr ''the quick fox'') (VStr ''1'') VNone =
       Inr (VTuple [VStr ''the quick fox''], VStr ''1'', VNone)
   \<and> preprocessor fresh_task = VNone
   \<and> preprocess_samples demo_keras fresh_task (VStr ''the quick fox'') (VStr ''1'') VNone =
       Inr (VStr ''the quick fox'', VStr ''1'', VNone)"
  using preprocess_samples_delegates [of demo_task demo_keras "VStr ''the quick fox''" "VStr ''1''" VNone]
    preprocess_samples_delegates [of fresh_task demo_keras "VStr ''the quick fox''" "VStr ''1''" VNone]
  by (simp add: preprocessor_def getattr_default_def keras_defs)

lemma remove1_distinct_filter:
  "distinct xs \<Longrightarrow> remove1 x xs = filter (\<lambda>y. y \<noteq> x) xs"
proof -
  assume "distinct xs"
  then have "remove1 x xs = removeAll x xs" by (rule distinct_remove1_removeAll)
  also have "\<dots> = filter (\<lambda>y. y \<noteq> x) xs" by (induction xs) auto
  finally show ?thesis .
qed

text \<open>
  C9.  The framework lists each layer once, and lists layer objects.  Then \<^verbatim>\<open>layers\<close> is
  the framework's listing without the preprocessor: every other layer is kept, in the same
  order, and the preprocessor is not in the result.  (When no preprocessor is set, or it is
  not in the listing, nothing is removed.)
\<close>

theorem layers_without_preprocessor:
  assumes "distinct (super_layers K self)"
    and "\<forall>l \<in> set (super_layers K self). \<exists>c i. l = VObj c i"
  shows "layers K self = filter (\<lambda>l. l \<noteq> preprocessor self) (super_layers K self)
         \<and> preprocessor self \<notin> set (layers K self)"
proof -
  have eq: "layers K self = filter (\<lambda>l. l \<noteq> preprocessor self) (super_layers K self)"
  proof (cases "preprocessor self \<in> set (super_layers K self)")
    case True
    with assms(2) have "truthy (preprocessor self)" by auto
    with True show ?thesis
      by (simp add: layers_def Let_def remove1_distinct_filter [OF assms(1)])
  next
    case False
    then have "filter (\<lambda>l. l \<noteq> preprocessor self) (super_layers K self) = super_layers K self"
      by (auto simp: filter_id_conv)
    with False show ?thesis by (simp add: layers_def Let_def)
  qed
  then show ?thesis by simp
qed

theorem layers_without_preprocessor_witness:
  "distinct (super_layers demo_keras demo_task)
   \<and> layers demo_keras demo_task =
       [VObj (Class 11 ''InputLayer'') 1, VObj GemmaBackbone 11, VObj (Class 12 ''Dense'') 2]
   \<and> layers demo_keras fresh_task = super_layers demo_keras fresh_task"
proof -
  have d: "distinct (super_layers demo_keras self)" for self
    by (simp add: demo_keras_def demo_classes)
  have o: "\<forall>l \<in> set (super_layers demo_keras self). \<exists>c i. l = VObj c i" for self
    by (simp add: demo_keras_def)
  show ?thesis
    using layers_without_preprocessor [OF d o, of demo_task]
      layers_without_preprocessor [OF d o, of fresh_task] d [of demo_task]
    by (simp add: preprocessor_def getattr_default_def keras_defs demo_classes)
qed

text \<open>
  C2.  \<^verbatim>\<open>check\<close> is the outcome of \<^verbatim>\<open>_check_for_loss_mismatch\<close>, \<^verbatim>\<open>result\<close> that of
  \<^verbatim>\<open>compile\<close>, \<^verbatim>\<open>delegated\<close> what the base class's \<^verbatim>\<open>compile\<close> returns.  A dict, list or
  tuple loss and a task without an \<^verbatim>\<open>activation\<close> attribute pass the check, and compile
  delegates.  For a single loss on a task with an activation, where the framework resolves
  both: a loss that is no sparse categorical crossentropy passes; softmax with
  \<^verbatim>\<open>from_logits=True\<close> and linear with \<^verbatim>\<open>from_logits=False\<close> make the check and compile
  raise the \<^verbatim>\<open>ValueError\<close> for that mismatch; softmax with \<^verbatim>\<open>from_logits=False\<close> and
  linear with \<^verbatim>\<open>from_logits=True\<close> pass, and compile delegates.
\<close>

theorem compile_loss_mismatch:
  "(let check = check_for_loss_mismatch K self loss;
        result = compile K self optimizer loss kwargs;
        delegated = super_compile K self optimizer loss
                      (if backend K = ''torch''
                       then AList.update ''jit_compile'' (VBool False) kwargs else kwargs)
    in (is_dict_list_tuple loss \<longrightarrow> check = Inr () \<and> result = delegated)
     \<and> (\<not> hasattr self ''activation'' \<longrightarrow> check = Inr () \<and> result = delegated)
     \<and> (\<not> is_dict_list_tuple loss \<and> hasattr self ''activation''
          \<and> losses_get K loss = Inr l
          \<and> activations_get K (getattr_default self ''activation'' VNone) = Inr a \<longrightarrow>
          (from_logits_of l = None \<longrightarrow> check = Inr () \<and> result = delegated)
        \<and> (a = Softmax \<and> from_logits_of l = Some True \<longrightarrow>
             check = Inl (ValueError msg_expects_logits)
             \<and> result = Inl (ValueError msg_expects_logits))
        \<and> (a = Linear \<and> from_logits_of l = Some False \<longrightarrow>
             check = Inl (ValueError msg_expects_softmax)
             \<and> result = Inl (ValueError msg_expects_softmax))
        \<and> (a = Softmax \<and> from_logits_of l = Some False \<longrightarrow>
             check = Inr () \<and> result = delegated)
        \<and> (a = Linear \<and> from_logits_of l = Some True \<longrightarrow>
             check = Inr () \<and> result = delegated)))"
  by (auto simp: check_for_loss_mismatch_def compile_def Let_def)

theorem compile_loss_mismatch_witness:
  "compile demo_keras demo_task (VStr ''adam'')
       (VObj (Class 13 ''SparseCategoricalCrossentropy'') 1) [] =
     Inl (ValueError msg_expects_logits)
   \<and> (\<exists>t. compile demo_keras demo_task (VStr ''adam'')
       (VObj (Class 13 ''SparseCategoricalCrossentropy'') 0) [] = Inr t)
   \<and> compile demo_keras logits_task (VStr ''adam'')
       (VStr ''sparse_categorical_crossentropy'') [] =
     Inl (ValueError msg_expects_softmax)
   \<and> (\<exists>t. compile demo_keras logits_task (VStr ''adam'')
       (VObj (Class 13 ''SparseCategoricalCrossentropy'') 1) [] = Inr t)
   \<and> (\<exists>t. compile demo_keras demo_task (VStr ''adam'') (VStr ''mse'') [] = Inr t)
   \<and> (\<exists>t. compile demo_keras fresh_task (VStr ''adam'')
       (VObj (Class 13 ''SparseCategoricalCrossentropy'') 1) [] = Inr t)
   \<and> (\<exists>t. compile demo_keras demo_task (VStr ''adam'')
       (VList [VObj (Class 13 ''SparseCategoricalCrossentropy'') 1]) [] = Inr t)"
proof -
  let ?scce = "\<lambda>i. VObj (Class 13 ''SparseCategoricalCrossentropy'') i"
  have 1: "compile demo_keras demo_task (VStr ''adam'') (?scce 1) [] =
             Inl (ValueError msg_expects_logits)"
    using compile_loss_mismatch [of demo_keras demo_task "?scce 1" "VStr ''adam''" "[]"
        "SparseCategoricalCrossentropy True" Softmax]
    by (simp add: Let_def hasattr_def getattr_default_def keras_defs)
  have 2: "\<exists>t. compile demo_keras demo_task (VStr ''adam'') (?scce 0) [] = Inr t"
    using compile_loss_mismatch [of demo_keras demo_task "?scce 0" "VStr ''adam''" "[]"
        "SparseCategoricalCrossentropy False" Softmax]
    by (simp add: Let_def hasattr_def getattr_default_def keras_defs)
  have 3: "compile demo_keras logits_task (VStr ''adam'')
             (VStr ''sparse_categorical_crossentropy'') [] = Inl (ValueError msg_expects_softmax)"
    using compile_loss_mismatch [of demo_keras logits_task
        "VStr ''sparse_categorical_crossentropy''" "VStr ''adam''" "[]"
        sparse_categorical_crossentropy Linear]
    by (simp add: Let_def hasattr_def getattr_default_def keras_defs logits_task_def)
  have 4: "\<exists>t. compile demo_keras logits_task (VStr ''adam'') (?scce 1) [] = Inr t"
    using compile_loss_mismatch [of demo_keras logits_task "?scce 1" "VStr ''adam''" "[]"
        "SparseCategoricalCrossentropy True" Linear]
    by (simp add: Let_def hasattr_def getattr_default_def keras_defs logits_task_def)
  have 5: "\<exists>t. compile demo_keras demo_task (VStr ''adam'') (VStr ''mse'') [] = Inr t"
    using compile_loss_mismatch [of demo_keras demo_task "VStr ''mse''" "VStr ''adam''" "[]"
        "OtherLoss 0" Softmax]
    by (simp add: Let_def hasattr_def getattr_default_def keras_defs)
  have 6: "\<exists>t. compile demo_keras fresh_task (VStr ''adam'') (?scce 1) [] = Inr t"
    using compile_loss_mismatch [of demo_keras fresh_task "?scce 1" "VStr ''adam''" "[]"]
    by (simp add: Let_def hasattr_def keras_defs)
  have 7: "\<exists>t. compile demo_keras demo_task (VStr ''adam'') (VList [?scce 1]) [] = Inr t"
    using compile_loss_mismatch [of demo_keras demo_task "VList [?scce 1]" "VStr ''adam''" "[]"]
    by (simp add: Let_def keras_defs)
  from 1 2 3 4 5 6 7 show ?thesis by simp
qed

lemma deserialize_entry_round_trip:
  assumes "round_trips K v" and "map_of config key = Some (layers_serialize K v)"
  shows "\<exists>v'. deserialize_entry K key config = Inr (AList.update key v' config)
              \<and> layers_serialize K v' = layers_serialize K v
              \<and> ((\<forall>d. layers_serialize K v \<noteq> VDict d) \<longrightarrow> v' = v)"
proof (cases "\<exists>d. layers_serialize K v = VDict d")
  case True
  then obtain d where d: "layers_serialize K v = VDict d" by blast
  with assms(1) obtain v' where "layers_deserialize K d = Inr v'"
    and "layers_serialize K v' = VDict d"
    by (auto simp: round_trips_def split: sum.splits)
  with d assms(2) show ?thesis
    by (auto simp: deserialize_entry_def)
next
  case False
  with assms(1) have same: "layers_serialize K v = v"
    by (auto simp: round_trips_def split: val.splits)
  have "AList.update key v config = config"
    using assms(2) same by (simp add: update_Some_unfold map_of_eq_Some_iff  AList.update_triv)
  with False assms(2) same show ?thesis
    by (auto simp: deserialize_entry_def split: val.splits option.splits)
qed

text \<open>
  C3.  \<^verbatim>\<open>get_config\<close> has exactly the keys \<^verbatim>\<open>backbone\<close>, \<^verbatim>\<open>preprocessor\<close> and \<^verbatim>\<open>name\<close>.
  Where the backbone and the preprocessor round-trip through the framework's serialization,
  \<^verbatim>\<open>from_config\<close> on that configuration calls the constructor of the class with a
  backbone and a preprocessor that serialize to the same configurations as the instance's
  own (a value that does not serialize to a dictionary, as \<^verbatim>\<open>None\<close>, is passed as it is)
  and with the same name; an instance holding what the constructor was given has the same
  \<^verbatim>\<open>get_config\<close>; and whatever the call returns is an instance of the class.
\<close>

theorem from_config_get_config:
  assumes "round_trips K (backbone self)" and "round_trips K (preprocessor self)"
  shows "map fst (get_config K self) = [''backbone'', ''preprocessor'', ''name'']
       \<and> (\<exists>b' p'.
            from_config W K c (get_config K self) =
              construct W c
                [(''backbone'', b'), (''preprocessor'', p'), (''name'', VStr (name self))]
          \<and> layers_serialize K b' = layers_serialize K (backbone self)
          \<and> layers_serialize K p' = layers_serialize K (preprocessor self)
          \<and> ((\<forall>d. layers_serialize K (backbone self) \<noteq> VDict d) \<longrightarrow> b' = backbone self)
          \<and> ((\<forall>d. layers_serialize K (preprocessor self) \<noteq> VDict d)
                \<longrightarrow> p' = preprocessor self)
          \<and> (\<forall>self'. backbone self' = b' \<and> preprocessor self' = p' \<and> name self' = name self
                \<longrightarrow> get_config K self' = get_config K self))
       \<and> (\<forall>v. fst (from_config W K c (get_config K self)) = Inr v \<longrightarrow> (\<exists>i. v = VObj c i))"
proof -
  let ?cfg = "get_config K self"
  have keys: "map fst ?cfg = [''backbone'', ''preprocessor'', ''name'']"
    by (simp add: get_config_def)
  have "map_of ?cfg ''backbone'' = Some (layers_serialize K (backbone self))"
    by (simp add: get_config_def)
  from deserialize_entry_round_trip [OF assms(1) this]
  obtain b' where b1: "deserialize_entry K ''backbone'' ?cfg = Inr (AList.update ''backbone'' b' ?cfg)"
    and b2: "layers_serialize K b' = layers_serialize K (backbone self)"
    and b3: "(\<forall>d. layers_serialize K (backbone self) \<noteq> VDict d) \<longrightarrow> b' = backbone self"
    by blast
  let ?cfg1 = "AList.update ''backbone'' b' ?cfg"
  have "map_of ?cfg1 ''preprocessor'' = Some (layers_serialize K (preprocessor self))"
    by (simp add: get_config_def)
  from deserialize_entry_round_trip [OF assms(2) this]
  obtain p' where p1: "deserialize_entry K ''preprocessor'' ?cfg1 =
                         Inr (AList.update ''preprocessor'' p' ?cfg1)"
    and p2: "layers_serialize K p' = layers_serialize K (preprocessor self)"
    and p3: "(\<forall>d. layers_serialize K (preprocessor self) \<noteq> VDict d) \<longrightarrow> p' = preprocessor self"
    by blast
  have final: "AList.update ''preprocessor'' p' ?cfg1 =
                 [(''backbone'', b'), (''preprocessor'', p'), (''name'', VStr (name self))]"
    by (simp add: get_config_def)
  have run: "from_config W K c ?cfg =
               construct W c
                 [(''backbone'', b'), (''preprocessor'', p'), (''name'', VStr (name self))]"
    using b1 p1 final by (simp add: from_config_def)
  have same: "\<forall>self'. backbone self' = b' \<and> preprocessor self' = p' \<and> name self' = name self
                \<longrightarrow> get_config K self' = get_config K self"
    using b2 p2 by (simp add: get_config_def)
  have inst: "\<forall>v. fst (from_config W K c ?cfg) = Inr v \<longrightarrow> (\<exists>i. v = VObj c i)"
    unfolding run by (auto simp: run_defs split: sum.splits)
  from run b2 p2 b3 p3 same have "\<exists>b' p'.
            from_config W K c (get_config K self) =
              construct W c
                [(''backbone'', b'), (''preprocessor'', p'), (''name'', VStr (name self))]
          \<and> layers_serialize K b' = layers_serialize K (backbone self)
          \<and> layers_serialize K p' = layers_serialize K (preprocessor self)
          \<and> ((\<forall>d. layers_serialize K (backbone self) \<noteq> VDict d) \<longrightarrow> b' = backbone self)
          \<and> ((\<forall>d. layers_serialize K (preprocessor self) \<noteq> VDict d)
                \<longrightarrow> p' = preprocessor self)
          \<and> (\<forall>self'. backbone self' = b' \<and> preprocessor self' = p' \<and> name self' = name self
                \<longrightarrow> get_config K self' = get_config K self)"
    by blast
  with keys inst show ?thesis by blast
qed

theorem from_config_get_config_witness:
  "round_trips demo_keras (backbone demo_task)
   \<and> round_trips demo_keras (preprocessor demo_task)
   \<and> map fst (get_config demo_keras demo_task) = [''backbone'', ''preprocessor'', ''name'']
   \<and> from_config demo_world demo_keras GemmaClassifier (get_config demo_keras demo_task) =
       (Inr (VObj GemmaClassifier 23),
        [Construct GemmaClassifier
           [(''backbone'', VObj (Class 0 ''GemmaBackbone'') 0),
            (''preprocessor'', VObj (Class 0 ''GemmaPreprocessor'') 0),
            (''name'', VStr ''gemma_classifier'')]])
   \<and> layers_serialize demo_keras (VObj (Class 0 ''GemmaBackbone'') 0) =
       layers_serialize demo_keras (backbone demo_task)
   \<and> round_trips demo_keras (preprocessor logits_task)
   \<and> fst (from_config demo_world demo_keras GemmaClassifier (get_config demo_keras logits_task)) =
       Inr (VObj GemmaClassifier 23)"
proof -
  have r: "round_trips demo_keras (backbone demo_task)"
    "round_trips demo_keras (preprocessor demo_task)"
    "round_trips demo_keras (backbone logits_task)"
    "round_trips demo_keras (preprocessor logits_task)"
    by (simp_all add: round_trips_def backbone_def preprocessor_def getattr_default_def
          keras_defs logits_task_def demo_classes)
  have ev: "from_config demo_world demo_keras GemmaClassifier (get_config demo_keras demo_task) =
       (Inr (VObj GemmaClassifier 23),
        [Construct GemmaClassifier
           [(''backbone'', VObj (Class 0 ''GemmaBackbone'') 0),
            (''preprocessor'', VObj (Class 0 ''GemmaPreprocessor'') 0),
            (''name'', VStr ''gemma_classifier'')]])"
    by (simp add: from_config_def get_config_def deserialize_entry_def backbone_def
          preprocessor_def getattr_default_def keras_defs run_defs demo_defs)
  have ev2: "fst (from_config demo_world demo_keras GemmaClassifier
                (get_config demo_keras logits_task)) = Inr (VObj GemmaClassifier 23)"
    by (simp add: from_config_def get_config_def deserialize_entry_def backbone_def
          preprocessor_def getattr_default_def keras_defs logits_task_def run_defs demo_defs)
  show ?thesis
    using from_config_get_config [OF r(1) r(2), of demo_world GemmaClassifier]
      from_config_get_config [OF r(3) r(4), of demo_world GemmaClassifier] r ev ev2
    by (simp add: get_config_def backbone_def getattr_default_def keras_defs demo_classes)
qed

end
